theory Spec2Isabelle
  imports Complex_Main "HOL-Library.Multiset"
begin

section \<open>Bronze layer ingestion: data model\<close>

text \<open>
  The notebook \<^verbatim>\<open>01_Bronze_Layer_Data_Ingestion.py\<close> declares four schemas, reads four
  delimited files against them, runs \<^verbatim>\<open>data_quality_check\<close> on each frame, adds two
  lineage columns, writes each frame as a table and counts the rows of the written tables.
  The frames, the catalog of tables and the relational primitives the notebook calls
  (\<^verbatim>\<open>count\<close>, \<^verbatim>\<open>when\<close>, \<^verbatim>\<open>isNull\<close>, \<^verbatim>\<open>distinct\<close>, \<^verbatim>\<open>withColumn\<close>, \<^verbatim>\<open>saveAsTable\<close>) are
  modelled here by what they compute on a materialised frame.
\<close>

subsection \<open>Schemas (notebook step 3)\<close>

datatype data_type = StringType | IntegerType | DoubleType | DateType | BooleanType

record struct_field =
  name :: string
  dataType :: data_type
  nullable :: bool

definition StructField :: "string \<Rightarrow> data_type \<Rightarrow> bool \<Rightarrow> struct_field" where
  "StructField n t b = \<lparr>name = n, dataType = t, nullable = b\<rparr>"

type_synonym struct_type = "struct_field list"

definition stores_schema :: struct_type where
  "stores_schema =
    [StructField ''store_id'' StringType False,
     StructField ''store_name'' StringType True,
     StructField ''city'' StringType True,
     StructField ''store_type'' StringType True,
     StructField ''size_category'' StringType True,
     StructField ''size_sqm'' IntegerType True,
     StructField ''opening_date'' DateType True,
     StructField ''is_active'' BooleanType True]"

definition products_schema :: struct_type where
  "products_schema =
    [StructField ''product_id'' StringType False,
     StructField ''product_name'' StringType True,
     StructField ''brand'' StringType True,
     StructField ''category'' StringType True,
     StructField ''gender'' StringType True,
     StructField ''season'' StringType True,
     StructField ''price'' DoubleType True,
     StructField ''cost'' DoubleType True,
     StructField ''size_range'' StringType True,
     StructField ''color_options'' IntegerType True,
     StructField ''launch_date'' DateType True,
     StructField ''is_active'' BooleanType True]"

definition customers_schema :: struct_type where
  "customers_schema =
    [StructField ''customer_id'' StringType False,
     StructField ''first_name'' StringType True,
     StructField ''last_name'' StringType True,
     StructField ''email'' StringType True,
     StructField ''age'' IntegerType True,
     StructField ''gender'' StringType True,
     StructField ''city'' StringType True,
     StructField ''registration_date'' DateType True,
     StructField ''customer_segment'' StringType True,
     StructField ''loyalty_member'' BooleanType True,
     StructField ''is_active'' BooleanType True]"

definition sales_schema :: struct_type where
  "sales_schema =
    [StructField ''transaction_id'' StringType False,
     StructField ''transaction_date'' DateType True,
     StructField ''transaction_time'' StringType True,
     StructField ''store_id'' StringType True,
     StructField ''product_id'' StringType True,
     StructField ''customer_id'' StringType True,
     StructField ''quantity'' IntegerType True,
     StructField ''unit_price'' DoubleType True,
     StructField ''discount_percent'' IntegerType True,
     StructField ''discount_amount'' DoubleType True,
     StructField ''total_amount'' DoubleType True,
     StructField ''payment_method'' StringType True,
     StructField ''channel'' StringType True]"

text \<open>
  The notebook holds the four schemas in four variables; the registry lookup is the choice
  of the variable by the dataset being processed.
\<close>

datatype dataset_kind = Stores | Products | Customers | Sales

fun getSchema :: "dataset_kind \<Rightarrow> struct_type" where
  "getSchema Stores = stores_schema"
| "getSchema Products = products_schema"
| "getSchema Customers = customers_schema"
| "getSchema Sales = sales_schema"

definition fieldNames :: "struct_type \<Rightarrow> string list" where
  "fieldNames s = map name s"

subsection \<open>Frames\<close>

text \<open>
  A cell is a typed value or null. A frame is its ordered column names and its rows, each
  row holding one cell per column, in column order. Doubles are held as exact rationals:
  no claim settled here computes with them.
\<close>

datatype cell =
  Null
  | StringV string
  | IntegerV int
  | DoubleV real
  | DateV int
  | BooleanV bool
  | TimestampV int

type_synonym row = "cell list"

record dataframe =
  columns :: "string list"
  rows :: "row list"

text \<open>
  Python's \<^verbatim>\<open>str.lower\<close> on the bytes of a name: the letters A to Z move to a to z,
  every other byte stays.
\<close>

definition lower_char :: "char \<Rightarrow> char" where
  "lower_char c =
    (let n = (of_char c :: nat) in if 65 \<le> n \<and> n \<le> 90 then char_of (n + 32) else c)"

definition lower :: "string \<Rightarrow> string" where
  "lower s = map lower_char s"

text \<open>Python's \<^verbatim>\<open>p in s\<close> on strings: \<open>p\<close> occurs in \<open>s\<close> as a contiguous run.\<close>

fun str_contains :: "string \<Rightarrow> string \<Rightarrow> bool" where
  "str_contains [] p = (p = [])"
| "str_contains (c # s) p = (take (length p) (c # s) = p \<or> str_contains s p)"

text \<open>
  A frame is well formed when every row has one cell per column and no two column names
  agree up to letter case (the column resolver of the session is not case sensitive, the
  notebook leaves that setting alone, and a name that matches two columns is refused as
  ambiguous).
\<close>

definition wf_df :: "dataframe \<Rightarrow> bool" where
  "wf_df df \<longleftrightarrow>
     distinct (map lower (columns df)) \<and>
     list_all (\<lambda>r. length r = length (columns df)) (rows df)"

text \<open>\<^verbatim>\<open>df.count()\<close>.\<close>

definition count_rows :: "dataframe \<Rightarrow> nat" where
  "count_rows df = length (rows df)"

text \<open>
  \<^verbatim>\<open>col(c)\<close> evaluated on one row: the cell under the column named \<open>c\<close>
  (\<open>None\<close> when the row has no such field).
\<close>

definition cell_of :: "dataframe \<Rightarrow> row \<Rightarrow> string \<Rightarrow> cell option" where
  "cell_of df r c = map_of (zip (columns df) r) c"

text \<open>\<^verbatim>\<open>df.select(c)\<close>: the values of column \<open>c\<close>, one per row, in row order.\<close>

definition select_col :: "dataframe \<Rightarrow> string \<Rightarrow> cell option list" where
  "select_col df c = map (\<lambda>r. cell_of df r c) (rows df)"

text \<open>\<^verbatim>\<open>col(c).isNull()\<close>.\<close>

definition isNull :: "cell option \<Rightarrow> bool" where
  "isNull v \<longleftrightarrow> v = Some Null"

text \<open>
  \<^verbatim>\<open>when(cond, value)\<close> with no \<^verbatim>\<open>otherwise\<close>: the value where the condition
  holds, null elsewhere.
\<close>

definition when_col :: "bool \<Rightarrow> cell \<Rightarrow> cell" where
  "when_col b v = (if b then v else Null)"

text \<open>The aggregate \<^verbatim>\<open>count(expr)\<close>: the number of rows where \<open>expr\<close> is not null.\<close>

definition count_agg :: "cell list \<Rightarrow> nat" where
  "count_agg vs = length (filter (\<lambda>v. v \<noteq> Null) vs)"

text \<open>\<^verbatim>\<open>.distinct().count()\<close> on a one-column selection; null is one of the values.\<close>

definition distinct_count :: "cell option list \<Rightarrow> nat" where
  "distinct_count vs = length (remdups vs)"

subsection \<open>The percentage column (pandas)\<close>

text \<open>
  \<^verbatim>\<open>null_df['Null Count'] / total_rows * 100\<close> is a float column. Finite values are
  held as exact reals; dividing by zero raises nothing in pandas: \<open>0 / 0\<close> is
  NaN and \<open>k / 0\<close> is infinite for \<open>k > 0\<close>.
\<close>

datatype float64 = Finite real | PosInf | NaN

definition truediv :: "nat \<Rightarrow> nat \<Rightarrow> float64" where
  "truediv k n =
    (if n = 0 then (if k = 0 then NaN else PosInf) else Finite (of_nat k / of_nat n))"

fun times100 :: "float64 \<Rightarrow> float64" where
  "times100 (Finite q) = Finite (q * 100)"
| "times100 PosInf = PosInf"
| "times100 NaN = NaN"

text \<open>Rounding to the nearest integer, a tie going to the even neighbour.\<close>

definition rint :: "real \<Rightarrow> int" where
  "rint q =
    (let f = \<lfloor>q\<rfloor>; d = q - of_int f
     in if d < 1 / 2 then f else if 1 / 2 < d then f + 1 else if even f then f else f + 1)"

text \<open>\<^verbatim>\<open>.round(2)\<close>: scale by 100, round to the nearest integer, scale back.\<close>

fun round2 :: "float64 \<Rightarrow> float64" where
  "round2 (Finite q) = Finite (of_int (rint (q * 100)) / 100)"
| "round2 PosInf = PosInf"
| "round2 NaN = NaN"

subsection \<open>The quality check (notebook step 5)\<close>

text \<open>
  What \<^verbatim>\<open>data_quality_check\<close> computes and prints: the row total, the table
  \<^verbatim>\<open>null_df\<close> (one line per column: null count and null percentage), the lines of it
  that are printed (those with a positive null count) and the distinct-count lines of the
  key-column block. The function returns \<^verbatim>\<open>True\<close> in every case.
\<close>

record quality_report =
  total_rows :: nat
  null_df :: "(string \<times> nat \<times> float64) list"
  null_printed :: "(string \<times> nat \<times> float64) list"
  distinct_printed :: "(string \<times> nat) list"

definition null_count_of :: "dataframe \<Rightarrow> string \<Rightarrow> nat" where
  "null_count_of df c =
     count_agg (map (\<lambda>v. when_col (isNull v) (StringV c)) (select_col df c))"

definition data_quality_check :: "dataframe \<Rightarrow> string \<Rightarrow> quality_report \<times> bool" where
  "data_quality_check df table_name =
    (let n = count_rows df;
         null_counts = map (\<lambda>c. (c, null_count_of df c)) (columns df);
         ndf = map (\<lambda>(c, k). (c, k, round2 (times100 (truediv k n)))) null_counts;
         dist =
           (if ''store_id'' \<in> set (columns df) \<or> ''product_id'' \<in> set (columns df)
               \<or> ''customer_id'' \<in> set (columns df)
            then map (\<lambda>c. (c, distinct_count (select_col df c)))
                   (filter (\<lambda>c. str_contains (lower c) ''id'') (columns df))
            else [])
     in (\<lparr>total_rows = n, null_df = ndf,
          null_printed = filter (\<lambda>(c, k, p). 0 < k) ndf,
          distinct_printed = dist\<rparr>, True))"

text \<open>The report read by column name.\<close>

definition audit :: "dataframe \<Rightarrow> quality_report" where
  "audit df = fst (data_quality_check df ''RowSet'')"

definition nullCounts :: "quality_report \<Rightarrow> string \<Rightarrow> nat option" where
  "nullCounts rep c = map_option fst (map_of (null_df rep) c)"

definition nullPercents :: "quality_report \<Rightarrow> string \<Rightarrow> float64 option" where
  "nullPercents rep c = map_option snd (map_of (null_df rep) c)"

definition distinctCounts :: "quality_report \<Rightarrow> string \<Rightarrow> nat option" where
  "distinctCounts rep c = map_of (distinct_printed rep) c"

subsection \<open>Lineage columns (notebook step 6)\<close>

text \<open>
  \<^verbatim>\<open>df.withColumn(c, e)\<close> for an expression \<open>e\<close> that is constant over the frame
  (\<^verbatim>\<open>lit(...)\<close>, or \<^verbatim>\<open>current_timestamp()\<close>, which has one value for the whole
  evaluation of a query): a column of that name is replaced where it stands, otherwise the
  column is added last.
\<close>

definition withColumn :: "dataframe \<Rightarrow> string \<Rightarrow> cell \<Rightarrow> dataframe" where
  "withColumn df c v =
    (if lower c \<in> set (map lower (columns df))
     then \<lparr>columns = columns df,
           rows = map (\<lambda>r. map (\<lambda>(n, x). if lower n = lower c then v else x)
                               (zip (columns df) r)) (rows df)\<rparr>
     else \<lparr>columns = columns df @ [c], rows = map (\<lambda>r. r @ [v]) (rows df)\<rparr>)"

text \<open>
  The two calls the notebook makes on each raw frame; \<open>now\<close> is the value of
  \<^verbatim>\<open>current_timestamp()\<close> in the evaluation.
\<close>

definition enrich :: "dataframe \<Rightarrow> int \<Rightarrow> string \<Rightarrow> dataframe" where
  "enrich df now sourceFileName =
     withColumn (withColumn df ''ingestion_timestamp'' (TimestampV now))
       ''source_file'' (StringV sourceFileName)"

definition df_stores :: "dataframe \<Rightarrow> int \<Rightarrow> dataframe" where
  "df_stores df_stores_raw now = enrich df_stores_raw now ''stores.csv''"

definition df_products :: "dataframe \<Rightarrow> int \<Rightarrow> dataframe" where
  "df_products df_products_raw now = enrich df_products_raw now ''products.csv''"

definition df_customers :: "dataframe \<Rightarrow> int \<Rightarrow> dataframe" where
  "df_customers df_customers_raw now = enrich df_customers_raw now ''customers.csv''"

definition df_sales :: "dataframe \<Rightarrow> int \<Rightarrow> dataframe" where
  "df_sales df_sales_raw now = enrich df_sales_raw now ''sales.csv''"

text \<open>A frame read against a registered schema: well formed, with the schema's columns.\<close>

definition is_rowset :: "dataset_kind \<Rightarrow> dataframe \<Rightarrow> bool" where
  "is_rowset k df \<longleftrightarrow> wf_df df \<and> columns df = fieldNames (getSchema k)"

subsection \<open>Tables (notebook steps 7 to 9)\<close>

text \<open>
  A stored table: its columns, the columns it is partitioned by, and its data grouped by
  partition, each group under the values its rows have in the partition columns. A table
  that is not partitioned has the empty key for all of its rows.
\<close>

record table =
  t_columns :: "string list"
  t_partition_by :: "string list"
  t_files :: "(cell option list \<times> row list) list"

type_synonym catalog = "string \<rightharpoonup> table"

datatype error = AnalysisException

definition partition_key :: "dataframe \<Rightarrow> string list \<Rightarrow> row \<Rightarrow> cell option list" where
  "partition_key df ps r = map (cell_of df r) ps"

definition partition_files ::
  "dataframe \<Rightarrow> string list \<Rightarrow> (cell option list \<times> row list) list" where
  "partition_files df ps =
     map (\<lambda>k. (k, filter (\<lambda>r. partition_key df ps r = k) (rows df)))
       (remdups (map (partition_key df ps) (rows df)))"

text \<open>
  \<^verbatim>\<open>df.write.format("delta").mode("overwrite").option("overwriteSchema", "true")
  .partitionBy(*ps).saveAsTable(tname)\<close>: the table of that name is replaced, schema
  included. The write is refused when a partition column is not a column of the frame, or
  when the partition columns leave no data column.
\<close>

definition saveAsTable ::
  "catalog \<Rightarrow> dataframe \<Rightarrow> string list \<Rightarrow> string \<Rightarrow> error + catalog" where
  "saveAsTable cat df ps tname =
    (if \<not> set ps \<subseteq> set (columns df) then Inl AnalysisException
     else if ps \<noteq> [] \<and> set (columns df) \<subseteq> set ps then Inl AnalysisException
     else Inr (cat(tname \<mapsto>
            \<lparr>t_columns = columns df, t_partition_by = ps,
             t_files = partition_files df ps\<rparr>)))"

text \<open>Reading a table back: the rows of all its partitions.\<close>

definition table_rows :: "table \<Rightarrow> row list" where
  "table_rows t = concat (map snd (t_files t))"

definition partitions :: "table \<Rightarrow> cell option list list" where
  "partitions t = map fst (t_files t)"

text \<open>\<^verbatim>\<open>spark.sql("SELECT COUNT(*) as cnt FROM tname").collect()[0]['cnt']\<close>.\<close>

definition sql_count :: "catalog \<Rightarrow> string \<Rightarrow> error + nat" where
  "sql_count cat tname =
    (case cat tname of
       None \<Rightarrow> Inl AnalysisException
     | Some t \<Rightarrow> Inr (length (table_rows t)))"

text \<open>
  The record counts of the summary step, in the order they are taken and printed. A
  count is compared with nothing: the step stops only when a table is missing.
\<close>

definition record_counts :: "catalog \<Rightarrow> error + (nat \<times> nat \<times> nat \<times> nat)" where
  "record_counts cat =
    (case sql_count cat ''bronze_stores'' of
       Inl e \<Rightarrow> Inl e
     | Inr stores_count \<Rightarrow>
    (case sql_count cat ''bronze_products'' of
       Inl e \<Rightarrow> Inl e
     | Inr products_count \<Rightarrow>
    (case sql_count cat ''bronze_customers'' of
       Inl e \<Rightarrow> Inl e
     | Inr customers_count \<Rightarrow>
    (case sql_count cat ''bronze_sales'' of
       Inl e \<Rightarrow> Inl e
     | Inr sales_count \<Rightarrow>
         Inr (stores_count, products_count, customers_count, sales_count)))))"

section \<open>Schema registry\<close>

text \<open>
  C9. Each registered dataset kind has the column count of the interface table: Stores 8,
  Products 12, Customers 11, Sales 13, and the column names come in the declared order.
\<close>

theorem getSchema_columns:
  "length (getSchema Stores) = 8 \<and>
   length (getSchema Products) = 12 \<and>
   length (getSchema Customers) = 11 \<and>
   length (getSchema Sales) = 13 \<and>
   fieldNames (getSchema Stores) =
     [''store_id'', ''store_name'', ''city'', ''store_type'', ''size_category'',
      ''size_sqm'', ''opening_date'', ''is_active''] \<and>
   fieldNames (getSchema Products) =
     [''product_id'', ''product_name'', ''brand'', ''category'', ''gender'', ''season'',
      ''price'', ''cost'', ''size_range'', ''color_options'', ''launch_date'', ''is_active''] \<and>
   fieldNames (getSchema Customers) =
     [''customer_id'', ''first_name'', ''last_name'', ''email'', ''age'', ''gender'',
      ''city'', ''registration_date'', ''customer_segment'', ''loyalty_member'',
      ''is_active''] \<and>
   fieldNames (getSchema Sales) =
     [''transaction_id'', ''transaction_date'', ''transaction_time'', ''store_id'',
      ''product_id'', ''customer_id'', ''quantity'', ''unit_price'', ''discount_percent'',
      ''discount_amount'', ''total_amount'', ''payment_method'', ''channel'']"
  by (simp add: stores_schema_def products_schema_def customers_schema_def
      sales_schema_def fieldNames_def StructField_def)

end
